theory Spec2Isabelle
  imports Complex_Main "HOL-Library.Multiset"
begin

section \<open>Seismic risk monitor: the antimeridian correction and the risk analysis\<close>

text \<open>
  The program \<^verbatim>\<open>seismic_risk_monitor.py\<close> computes which populated places lie within a
  fixed radius of recent earthquakes. Its geometry is done by geopandas, shapely and
  pyproj; the program itself decides which of their operations are applied to which
  geometry, in which order and with which arguments. The embedding therefore takes the
  operations of those libraries as a parameter (a record of functions over an arbitrary
  type \<open>'g\<close> of geometries) and translates the two functions of the program,
  \<^verbatim>\<open>handle_antimeridian_buffers\<close> and \<^verbatim>\<open>perform_risk_analysis\<close>, line by line.

  Python floats are modelled as real numbers: comparisons are exact, and the rounding of
  \<^verbatim>\<open>maxx + 1\<close>, \<^verbatim>\<open>minx - 1\<close> and \<^verbatim>\<open>radius_km * 1000\<close> is not modelled. The one float
  effect the control flow depends on is kept: the bounds of an empty geometry are NaN,
  and every comparison with NaN is false.
\<close>

subsection \<open>Configuration\<close>

definition MIN_MAGNITUDE :: real where
  "MIN_MAGNITUDE = 4.0"

definition RISK_RADIUS_KM :: real where
  "RISK_RADIUS_KM = 50"

definition MERCATOR_WORLD_MAX_X :: real where
  "MERCATOR_WORLD_MAX_X = 20037508.34"

definition MERCATOR_WORLD_MIN_X :: real where
  "MERCATOR_WORLD_MIN_X = - 20037508.34"

definition MERCATOR_WIDTH :: real where
  "MERCATOR_WIDTH = MERCATOR_WORLD_MAX_X - MERCATOR_WORLD_MIN_X"

subsection \<open>Frames and rows\<close>

text \<open>
  A GeoDataFrame is the list of its rows in order, each with its index label. Every row
  has a \<^verbatim>\<open>geometry\<close> column; an earthquake row has the columns \<^verbatim>\<open>mag\<close>, \<^verbatim>\<open>place\<close> and
  \<^verbatim>\<open>title\<close> (a missing magnitude is NaN in pandas, here \<open>None\<close>), a city row has
  \<^verbatim>\<open>name\<close>, \<^verbatim>\<open>adm0name\<close> and \<^verbatim>\<open>pop_max\<close>. The other columns of the feeds are not read
  by the two functions and are left out.
\<close>

record 'g geo_row =
  geometry :: 'g

record 'g quake = "'g geo_row" +
  mag :: "real option"
  place :: string
  title :: string

record 'g city = "'g geo_row" +
  name :: string
  adm0name :: string
  pop_max :: real

type_synonym 'r frame = "(nat \<times> 'r) list"

subsection \<open>The geometry library\<close>

text \<open>
  The operations of shapely, geopandas and pyproj that the program calls.
  \<^item> \<open>bounds g\<close> is \<^verbatim>\<open>g.bounds\<close>, the tuple \<^verbatim>\<open>(minx, miny, maxx, maxy)\<close>; \<open>None\<close> stands
    for the four NaN that shapely returns for an empty geometry.
  \<^item> \<open>box minx miny maxx maxy\<close> is \<^verbatim>\<open>shapely.geometry.box\<close>.
  \<^item> \<open>intersection g h\<close> is \<^verbatim>\<open>g.intersection(h)\<close>.
  \<^item> \<open>translate g xoff\<close> is \<^verbatim>\<open>shapely.affinity.translate(g, xoff=xoff)\<close>.
  \<^item> \<open>unary_union gs\<close> is \<^verbatim>\<open>shapely.ops.unary_union(gs)\<close>.
  \<^item> \<open>to_crs src dst g\<close> is what \<^verbatim>\<open>GeoDataFrame.to_crs(epsg=dst)\<close> does to one geometry of
    a frame whose reference system is EPSG \<open>src\<close>.
  \<^item> \<open>buffer g d\<close> is \<^verbatim>\<open>g.buffer(d)\<close>.
  \<^item> \<open>intersects g h\<close> is the predicate \<^verbatim>\<open>"intersects"\<close> of \<^verbatim>\<open>geopandas.sjoin\<close>.
  \<^item> \<open>sjoin_order pairs\<close> is the order in which \<^verbatim>\<open>geopandas.sjoin\<close> lists the matching
    pairs of rows it has found. It comes out of the library's spatial index and is not
    the order of either frame, so the program is translated for every such order.
\<close>

record 'g geo_lib =
  bounds :: "'g \<Rightarrow> (real \<times> real \<times> real \<times> real) option"
  box :: "real \<Rightarrow> real \<Rightarrow> real \<Rightarrow> real \<Rightarrow> 'g"
  intersection :: "'g \<Rightarrow> 'g \<Rightarrow> 'g"
  translate :: "'g \<Rightarrow> real \<Rightarrow> 'g"
  unary_union :: "'g list \<Rightarrow> 'g"
  to_crs :: "nat \<Rightarrow> nat \<Rightarrow> 'g \<Rightarrow> 'g"
  buffer :: "'g \<Rightarrow> real \<Rightarrow> 'g"
  intersects :: "'g \<Rightarrow> 'g \<Rightarrow> bool"
  sjoin_order :: "((nat \<times> 'g city) \<times> (nat \<times> 'g quake)) list
                    \<Rightarrow> ((nat \<times> 'g city) \<times> (nat \<times> 'g quake)) list"

text \<open>
  A row of the spatial join after the renaming of line 121: the columns of the city,
  \<^verbatim>\<open>index_right\<close> (the index label of the matching risk zone) and the zone's columns
  \<^verbatim>\<open>mag\<close>, \<^verbatim>\<open>place\<close> and \<^verbatim>\<open>title\<close>, the first two renamed. The zone's \<^verbatim>\<open>title\<close> column
  is the field \<open>quake_title\<close>.
\<close>

record 'g impacted = "'g city" +
  index_right :: nat
  Quake_Magnitude :: "real option"
  Quake_Location :: string
  quake_title :: string

text \<open>
  The one exception the two functions can meet on their own account: pandas raises
  \<^verbatim>\<open>ValueError\<close> when a list assigned to a column is not as long as the frame.
\<close>

datatype error = ValueError

subsection \<open>\<^verbatim>\<open>handle_antimeridian_buffers\<close>\<close>

definition large_y :: real where
  "large_y = 10 ^ 10"

text \<open>The body of the \<^verbatim>\<open>for geom in gdf_mercator.geometry\<close> loop: the geometry appended.\<close>

definition corrected_geom :: "'g geo_lib \<Rightarrow> 'g \<Rightarrow> 'g" where
  "corrected_geom lib geom =
     (case bounds lib geom of
        None \<Rightarrow> geom
      | Some (minx, miny, maxx, maxy) \<Rightarrow>
          if maxx > MERCATOR_WORLD_MAX_X then
            (let inside_box = box lib MERCATOR_WORLD_MIN_X (- large_y) MERCATOR_WORLD_MAX_X large_y;
                 part_main = intersection lib geom inside_box;
                 overflow_box = box lib MERCATOR_WORLD_MAX_X (- large_y) (maxx + 1) large_y;
                 part_overflow = intersection lib geom overflow_box;
                 part_shifted = translate lib part_overflow (- MERCATOR_WIDTH)
             in unary_union lib [part_main, part_shifted])
          else if minx < MERCATOR_WORLD_MIN_X then
            (let inside_box = box lib MERCATOR_WORLD_MIN_X (- large_y) MERCATOR_WORLD_MAX_X large_y;
                 part_main = intersection lib geom inside_box;
                 overflow_box = box lib (minx - 1) (- large_y) MERCATOR_WORLD_MIN_X large_y;
                 part_overflow = intersection lib geom overflow_box;
                 part_shifted = translate lib part_overflow MERCATOR_WIDTH
             in unary_union lib [part_main, part_shifted])
          else geom)"

text \<open>The loop, with the list \<^verbatim>\<open>corrected_geoms\<close> it appends to.\<close>

fun correct_loop :: "'g geo_lib \<Rightarrow> 'g list \<Rightarrow> 'g list \<Rightarrow> 'g list" where
  "correct_loop lib [] corrected_geoms = corrected_geoms"
| "correct_loop lib (geom # rest) corrected_geoms =
     correct_loop lib rest (corrected_geoms @ [corrected_geom lib geom])"

definition handle_antimeridian_buffers :: "'g geo_lib \<Rightarrow> ('g, 'a) geo_row_scheme frame \<Rightarrow> 'g list" where
  "handle_antimeridian_buffers lib gdf_mercator =
     correct_loop lib (map (\<lambda>(i, r). geometry r) gdf_mercator) []"

subsection \<open>\<^verbatim>\<open>perform_risk_analysis\<close>\<close>

text \<open>\<^verbatim>\<open>quakes_gdf['mag'] >= min_mag\<close>: false on a NaN magnitude.\<close>

fun mag_ge :: "real option \<Rightarrow> real \<Rightarrow> bool" where
  "mag_ge None min_mag = False"
| "mag_ge (Some m) min_mag = (m \<ge> min_mag)"

text \<open>An operation applied to the geometry column, row by row (index labels kept).\<close>

definition map_geometry :: "('g \<Rightarrow> 'g) \<Rightarrow> ('g, 'a) geo_row_scheme frame \<Rightarrow> ('g, 'a) geo_row_scheme frame" where
  "map_geometry f df = map (\<lambda>(i, r). (i, r\<lparr>geometry := f (geometry r)\<rparr>)) df"

text \<open>\<^verbatim>\<open>df['geometry'] = values\<close> for a list of values: by position, lengths must agree.\<close>

definition set_geometry :: "('g, 'a) geo_row_scheme frame \<Rightarrow> 'g list \<Rightarrow> error + ('g, 'a) geo_row_scheme frame" where
  "set_geometry df vals =
     (if length vals = length df
      then Inr (map (\<lambda>((i, r), g). (i, r\<lparr>geometry := g\<rparr>)) (zip df vals))
      else Inl ValueError)"

text \<open>
  \<^verbatim>\<open>gpd.sjoin(left, right, how="inner", predicate="intersects")\<close>: one row for every
  pair of a left and a right row whose geometries intersect. \<open>matching_pairs\<close> collects
  those pairs; the join returns them in the order the library gives them.
\<close>

definition matching_pairs :: "'g geo_lib \<Rightarrow> 'g city frame \<Rightarrow> 'g quake frame \<Rightarrow> ((nat \<times> 'g city) \<times> (nat \<times> 'g quake)) list" where
  "matching_pairs lib left_df right_df =
     concat (map (\<lambda>l. map (\<lambda>r. (l, r))
                   (filter (\<lambda>r. intersects lib (geometry (snd l)) (geometry (snd r))) right_df))
                 left_df)"

definition sjoin :: "'g geo_lib \<Rightarrow> 'g city frame \<Rightarrow> 'g quake frame \<Rightarrow> ((nat \<times> 'g city) \<times> (nat \<times> 'g quake)) list" where
  "sjoin lib left_df right_df = sjoin_order lib (matching_pairs lib left_df right_df)"

text \<open>
  The joined row as a frame row, with
  \<^verbatim>\<open>rename(columns={'mag': 'Quake_Magnitude', 'place': 'Quake_Location'})\<close> applied: the
  index label and the geometry are the city's.
\<close>

definition renamed :: "(nat \<times> 'g city) \<times> (nat \<times> 'g quake) \<Rightarrow> nat \<times> 'g impacted" where
  "renamed p =
     (case p of ((i, c), (j, z)) \<Rightarrow>
        (i, \<lparr>geometry = geometry c, name = name c, adm0name = adm0name c, pop_max = pop_max c,
             index_right = j, Quake_Magnitude = mag z, Quake_Location = place z,
             quake_title = title z\<rparr>))"

text \<open>
  The frames read from the two GeoJSON feeds are in EPSG:4326. The two results are
  \<^verbatim>\<open>(cities_w_risk, risk_zones)\<close>; an empty \<^verbatim>\<open>GeoDataFrame()\<close> is the empty list.
\<close>

definition perform_risk_analysis ::
  "'g geo_lib \<Rightarrow> 'g quake frame \<Rightarrow> 'g city frame \<Rightarrow> real \<Rightarrow> real
     \<Rightarrow> error + ('g impacted frame \<times> 'g quake frame)" where
  "perform_risk_analysis lib quakes_gdf cities_gdf min_mag radius_km =
     (if quakes_gdf = [] \<or> cities_gdf = [] then Inr ([], [])
      else
        let sig_quakes = filter (\<lambda>(i, q). mag_ge (mag q) min_mag) quakes_gdf in
        if sig_quakes = [] then Inr ([], [])
        else
          let projected = map_geometry (to_crs lib 4326 3857) sig_quakes;
              buffered = map_geometry (\<lambda>g. buffer lib g (radius_km * 1000)) projected
          in case set_geometry buffered (handle_antimeridian_buffers lib buffered) of
               Inl e \<Rightarrow> Inl e
             | Inr fixed \<Rightarrow>
                 let risk_zones = map_geometry (to_crs lib 3857 4326) fixed;
                     risk_zones = map_geometry (\<lambda>g. buffer lib g 0) risk_zones;
                     cities_w_risk = map renamed (sjoin lib cities_gdf risk_zones)
                 in Inr (cities_w_risk, risk_zones))"

subsection \<open>The projection\<close>

text \<open>
  Modelled from the spec: the coordinate transform between EPSG:4326 and EPSG:3857 is
  pyproj's, reached through \<^verbatim>\<open>to_crs\<close>; its code is not part of the program. The spec
  (section 4.1) gives it as spherical Web Mercator on a sphere of radius 6378137 m,
  \<open>x = R * lon_rad\<close> and \<open>y = R * ln (tan (pi/4 + lat_rad/2))\<close>, with the latitude clamped
  to 85.0511 degrees either side before projection, and the analytic inverse. Degrees
  and metres are real numbers here.
\<close>

definition earth_radius :: real where
  "earth_radius = 6378137"

definition mercator_x :: "real \<Rightarrow> real" where
  "mercator_x lon = earth_radius * (lon * pi / 180)"

definition mercator_y :: "real \<Rightarrow> real" where
  "mercator_y lat = earth_radius * ln (tan (pi / 4 + (lat * pi / 180) / 2))"

definition mercator_lon :: "real \<Rightarrow> real" where
  "mercator_lon x = (x / earth_radius) * 180 / pi"

definition mercator_lat :: "real \<Rightarrow> real" where
  "mercator_lat y = (2 * arctan (exp (y / earth_radius)) - pi / 2) * 180 / pi"

definition clamp_lat :: "real \<Rightarrow> real" where
  "clamp_lat lat = max (- 85.0511) (min 85.0511 lat)"

definition toProjected :: "real \<times> real \<Rightarrow> real \<times> real" where
  "toProjected p = (case p of (lon, lat) \<Rightarrow> (mercator_x lon, mercator_y (clamp_lat lat)))"

definition toGeographic :: "real \<times> real \<Rightarrow> real \<times> real" where
  "toGeographic p = (case p of (x, y) \<Rightarrow> (mercator_lon x, mercator_lat y))"

subsection \<open>A library of rectangles\<close>

text \<open>
  To run the two functions on concrete inputs the library record needs an instance.
  This one is exact on a small class of geometries: a geometry is a finite union of
  closed axis-parallel rectangles \<open>(minx, miny, maxx, maxy)\<close>, a point being the
  rectangle with equal corners. Intersection, translation, union and bounds are those
  of the point sets. The projection is the one above, without the clamp (pyproj does not
  clamp); it maps rectangles to rectangles because each coordinate is transformed on
  its own. The buffer grows every rectangle by the distance on all four sides, a square
  where shapely builds a 64-gon, and keeps what has an interior: as in shapely, a point
  buffered by a distance that is not positive is the empty geometry, and a rectangle with
  an interior buffered by zero is itself. The join lists its pairs by left row, then by
  right row. The theorems about the program hold for every library; only closed examples
  use this one.
\<close>

type_synonym rect = "real \<times> real \<times> real \<times> real"

type_synonym cells = "rect list"

fun cells_bounds :: "cells \<Rightarrow> (real \<times> real \<times> real \<times> real) option" where
  "cells_bounds [] = None"
| "cells_bounds ((x0, y0, x1, y1) # rs) =
     (case cells_bounds rs of
        None \<Rightarrow> Some (x0, y0, x1, y1)
      | Some (a, b, c, d) \<Rightarrow> Some (min x0 a, min y0 b, max x1 c, max y1 d))"

definition cells_box :: "real \<Rightarrow> real \<Rightarrow> real \<Rightarrow> real \<Rightarrow> cells" where
  "cells_box minx miny maxx maxy = [(minx, miny, maxx, maxy)]"

definition rect_meet :: "rect \<Rightarrow> rect \<Rightarrow> rect" where
  "rect_meet r s =
     (case r of (x0, y0, x1, y1) \<Rightarrow> case s of (a, b, c, d) \<Rightarrow>
        (max x0 a, max y0 b, min x1 c, min y1 d))"

definition rect_nonempty :: "rect \<Rightarrow> bool" where
  "rect_nonempty r = (case r of (x0, y0, x1, y1) \<Rightarrow> x0 \<le> x1 \<and> y0 \<le> y1)"

definition cells_intersection :: "cells \<Rightarrow> cells \<Rightarrow> cells" where
  "cells_intersection g h =
     concat (map (\<lambda>r. filter rect_nonempty (map (rect_meet r) h)) g)"

definition cells_translate :: "cells \<Rightarrow> real \<Rightarrow> cells" where
  "cells_translate g xoff = map (\<lambda>(x0, y0, x1, y1). (x0 + xoff, y0, x1 + xoff, y1)) g"

definition cells_unary_union :: "cells list \<Rightarrow> cells" where
  "cells_unary_union gs = concat gs"

definition cells_to_crs :: "nat \<Rightarrow> nat \<Rightarrow> cells \<Rightarrow> cells" where
  "cells_to_crs src dst g =
     (if src = 4326 \<and> dst = 3857 then
        map (\<lambda>(x0, y0, x1, y1). (mercator_x x0, mercator_y y0, mercator_x x1, mercator_y y1)) g
      else if src = 3857 \<and> dst = 4326 then
        map (\<lambda>(x0, y0, x1, y1). (mercator_lon x0, mercator_lat y0, mercator_lon x1, mercator_lat y1)) g
      else g)"

definition cells_buffer :: "cells \<Rightarrow> real \<Rightarrow> cells" where
  "cells_buffer g d =
     filter (\<lambda>(x0, y0, x1, y1). x0 < x1 \<and> y0 < y1)
       (map (\<lambda>(x0, y0, x1, y1). (x0 - d, y0 - d, x1 + d, y1 + d)) g)"

definition cells_intersects :: "cells \<Rightarrow> cells \<Rightarrow> bool" where
  "cells_intersects g h = (cells_intersection g h \<noteq> [])"

definition cells_lib :: "cells geo_lib" where
  "cells_lib =
     \<lparr>bounds = cells_bounds, box = cells_box, intersection = cells_intersection,
      translate = cells_translate, unary_union = cells_unary_union, to_crs = cells_to_crs,
      buffer = cells_buffer, intersects = cells_intersects, sjoin_order = (\<lambda>pairs. pairs)\<rparr>"

definition point_at :: "real \<Rightarrow> real \<Rightarrow> cells" where
  "point_at x y = [(x, y, x, y)]"

text \<open>
  What lines 107 to 117 of \<^verbatim>\<open>perform_risk_analysis\<close> do to the geometry of one
  significant earthquake: project, buffer, correct, project back, \<^verbatim>\<open>buffer(0)\<close>.
\<close>

definition zone_geometry :: "'g geo_lib \<Rightarrow> real \<Rightarrow> 'g \<Rightarrow> 'g" where
  "zone_geometry lib radius_km g =
     buffer lib (to_crs lib 3857 4326
       (corrected_geom lib (buffer lib (to_crs lib 4326 3857 g) (radius_km * 1000)))) 0"

text \<open>Rows for the closed examples.\<close>

definition quake_row :: "real \<Rightarrow> string \<Rightarrow> cells \<Rightarrow> cells quake" where
  "quake_row m t g = \<lparr>geometry = g, mag = Some m, place = ''offshore'', title = t\<rparr>"

definition city_row :: "string \<Rightarrow> cells \<Rightarrow> cells city" where
  "city_row n g = \<lparr>geometry = g, name = n, adm0name = ''Nowhere'', pop_max = 1000\<rparr>"

section \<open>Properties\<close>

subsection \<open>The correction loop\<close>

lemma correct_loop_append:
  "correct_loop lib gs acc = acc @ map (corrected_geom lib) gs"
  by (induction gs arbitrary: acc) simp_all

lemma handle_antimeridian_buffers_map:
  "handle_antimeridian_buffers lib gdf = map (\<lambda>(i, r). corrected_geom lib (geometry r)) gdf"
  by (simp add: handle_antimeridian_buffers_def correct_loop_append comp_def case_prod_unfold)

lemma handle_antimeridian_buffers_nth:
  "k < length gdf \<Longrightarrow>
   handle_antimeridian_buffers lib gdf ! k = corrected_geom lib (geometry (snd (gdf ! k)))"
  by (simp add: handle_antimeridian_buffers_map case_prod_unfold)

lemma cells_lib_sel:
  "bounds cells_lib = cells_bounds" "box cells_lib = cells_box"
  "intersection cells_lib = cells_intersection" "translate cells_lib = cells_translate"
  "unary_union cells_lib = cells_unary_union" "to_crs cells_lib = cells_to_crs"
  "buffer cells_lib = cells_buffer" "intersects cells_lib = cells_intersects"
  "sjoin_order cells_lib = (\<lambda>pairs. pairs)"
  by (simp_all add: cells_lib_def)

lemmas cells_simps =
  cells_lib_def cells_box_def cells_intersection_def cells_translate_def cells_unary_union_def
  cells_buffer_def cells_intersects_def rect_meet_def rect_nonempty_def point_at_def
  MERCATOR_WORLD_MAX_X_def MERCATOR_WORLD_MIN_X_def MERCATOR_WIDTH_def large_y_def

text \<open>
  Claim C10: for every input frame the correction returns exactly one geometry per row,
  in the order of the rows: the output is as long as the input, and it is the list of the
  rows' geometries, each corrected on its own.
\<close>

theorem C10_one_geometry_per_row:
  "length (handle_antimeridian_buffers lib gdf) = length gdf \<and>
   handle_antimeridian_buffers lib gdf = map (\<lambda>(i, r). corrected_geom lib (geometry r)) gdf"
  by (simp add: handle_antimeridian_buffers_map)

text \<open>
  Claim C6: a geometry whose bounding box has \<open>minx \<ge> -MAX_X\<close> and \<open>maxx \<le> MAX_X\<close> is
  returned as it is, so with the same bounding box.
\<close>

theorem C6_identity_within_bounds:
  assumes "k < length gdf"
    and "bounds lib (geometry (snd (gdf ! k))) = Some (minx, miny, maxx, maxy)"
    and "MERCATOR_WORLD_MIN_X \<le> minx" and "maxx \<le> MERCATOR_WORLD_MAX_X"
  shows "handle_antimeridian_buffers lib gdf ! k = geometry (snd (gdf ! k)) \<and>
         bounds lib (handle_antimeridian_buffers lib gdf ! k) = Some (minx, miny, maxx, maxy)"
  using assms by (simp add: handle_antimeridian_buffers_nth corrected_geom_def)

theorem C6_identity_within_bounds_witness:
  "(0::nat) < length [(7::nat, \<lparr>geometry = [(- 50000, - 50000, 50000, 50000 :: real)]\<rparr>)] \<and>
   bounds cells_lib (geometry (snd ([(7::nat, \<lparr>geometry = [(- 50000, - 50000, 50000, 50000)]\<rparr>)] ! 0)))
     = Some (- 50000, - 50000, 50000, 50000) \<and>
   MERCATOR_WORLD_MIN_X \<le> - 50000 \<and> 50000 \<le> MERCATOR_WORLD_MAX_X \<and>
   handle_antimeridian_buffers cells_lib [(7::nat, \<lparr>geometry = [(- 50000, - 50000, 50000, 50000)]\<rparr>)] ! 0
     = [(- 50000, - 50000, 50000, 50000)]"
  using C6_identity_within_bounds [of 0 "[(7::nat, \<lparr>geometry = [(- 50000, - 50000, 50000, 50000)]\<rparr>)]"
      cells_lib "- 50000" "- 50000" 50000 50000]
  by (simp add: cells_simps)

text \<open>
  Claim C1: when the bounding box passes \<open>MAX_X\<close> on the right and not \<open>-MAX_X\<close> on the
  left, the corrected geometry is the union of the geometry clipped to the box from
  \<open>-MAX_X\<close> to \<open>MAX_X\<close> and of the geometry clipped to the strip from \<open>MAX_X\<close> to
  \<open>maxx + 1\<close>, translated by minus the world width; when it passes \<open>-MAX_X\<close> on the left
  only, the strip is the one from \<open>minx - 1\<close> to \<open>-MAX_X\<close> and the translation is by plus
  the world width. The world width is twice \<open>MAX_X\<close>; the boxes reach \<open>10^10\<close> up and down.
\<close>

theorem C1_overflow_split:
  assumes "k < length gdf" and "geometry (snd (gdf ! k)) = g"
    and "bounds lib g = Some (minx, miny, maxx, maxy)"
  shows "(maxx > MERCATOR_WORLD_MAX_X \<and> MERCATOR_WORLD_MIN_X \<le> minx \<longrightarrow>
            handle_antimeridian_buffers lib gdf ! k =
              unary_union lib
                [intersection lib g (box lib MERCATOR_WORLD_MIN_X (- large_y) MERCATOR_WORLD_MAX_X large_y),
                 translate lib
                   (intersection lib g (box lib MERCATOR_WORLD_MAX_X (- large_y) (maxx + 1) large_y))
                   (- MERCATOR_WIDTH)]) \<and>
         (minx < MERCATOR_WORLD_MIN_X \<and> maxx \<le> MERCATOR_WORLD_MAX_X \<longrightarrow>
            handle_antimeridian_buffers lib gdf ! k =
              unary_union lib
                [intersection lib g (box lib MERCATOR_WORLD_MIN_X (- large_y) MERCATOR_WORLD_MAX_X large_y),
                 translate lib
                   (intersection lib g (box lib (minx - 1) (- large_y) MERCATOR_WORLD_MIN_X large_y))
                   MERCATOR_WIDTH]) \<and>
         MERCATOR_WORLD_MIN_X = - MERCATOR_WORLD_MAX_X \<and>
         MERCATOR_WIDTH = 2 * MERCATOR_WORLD_MAX_X"
  using assms
  by (simp add: handle_antimeridian_buffers_nth corrected_geom_def Let_def
      MERCATOR_WORLD_MAX_X_def MERCATOR_WORLD_MIN_X_def MERCATOR_WIDTH_def)

theorem C1_overflow_split_witness:
  "bounds cells_lib [(20000000, - 50000, 20100000, 50000)] = Some (20000000, - 50000, 20100000, 50000) \<and>
   20100000 > MERCATOR_WORLD_MAX_X \<and> MERCATOR_WORLD_MIN_X \<le> 20000000 \<and>
   handle_antimeridian_buffers cells_lib [(0, \<lparr>geometry = [(20000000, - 50000, 20100000, 50000)]\<rparr>)] ! 0 =
     [(20000000, - 50000, 20037508.34, 50000), (- 20037508.34, - 50000, - 19975016.68, 50000)] \<and>
   bounds cells_lib [(- 20100000, - 50000, - 20000000, 50000)] = Some (- 20100000, - 50000, - 20000000, 50000) \<and>
   - 20100000 < MERCATOR_WORLD_MIN_X \<and> - 20000000 \<le> MERCATOR_WORLD_MAX_X \<and>
   handle_antimeridian_buffers cells_lib [(0, \<lparr>geometry = [(- 20100000, - 50000, - 20000000, 50000)]\<rparr>)] ! 0 =
     [(- 20037508.34, - 50000, - 20000000, 50000), (19975016.68, - 50000, 20037508.34, 50000)]"
  using C1_overflow_split [of 0 "[(0, \<lparr>geometry = [(20000000, - 50000, 20100000, 50000)]\<rparr>)]"
      "[(20000000, - 50000, 20100000, 50000)]" cells_lib 20000000 "- 50000" 20100000 50000]
    C1_overflow_split [of 0 "[(0, \<lparr>geometry = [(- 20100000, - 50000, - 20000000, 50000)]\<rparr>)]"
      "[(- 20100000, - 50000, - 20000000, 50000)]" cells_lib "- 20100000" "- 50000" "- 20000000" 50000]
  by (simp add: cells_simps)

text \<open>
  Claim C2 says that a geometry whose bounding box passes both edges is rejected with an
  error. The loop has no such case: the test \<open>maxx > MAX_X\<close> comes first, so the geometry
  gets the correction for an overflow on the right, and what lies left of \<open>-MAX_X\<close> is
  clipped away. The example is the square of half-side 30000 km around the origin.
\<close>

theorem C2_no_rejection_counterexample:
  "bounds cells_lib [(- 30000000, - 30000000, 30000000, 30000000)]
     = Some (- 30000000, - 30000000, 30000000, 30000000) \<and>
   30000000 > MERCATOR_WORLD_MAX_X \<and> - 30000000 < - MERCATOR_WORLD_MAX_X \<and>
   handle_antimeridian_buffers cells_lib
     [(0::nat, \<lparr>geometry = [(- 30000000, - 30000000, 30000000, 30000000)]\<rparr>)] =
     [[(- 20037508.34, - 30000000, 20037508.34, 30000000),
       (- 20037508.34, - 30000000, - 10075016.68, 30000000)]]"
  by (simp add: handle_antimeridian_buffers_map corrected_geom_def cells_simps)

text \<open>
  Claim C2, amended: when the bounding box passes both edges, no error is raised and the
  geometry is corrected as for an overflow on the right alone: the result is the union of
  the geometry clipped to the box from \<open>-MAX_X\<close> to \<open>MAX_X\<close> and of the geometry clipped
  to the strip from \<open>MAX_X\<close> to \<open>maxx + 1\<close>, translated by minus the world width.
\<close>

theorem C2_both_edges_east_branch:
  assumes "k < length gdf" and "geometry (snd (gdf ! k)) = g"
    and "bounds lib g = Some (minx, miny, maxx, maxy)"
    and "maxx > MERCATOR_WORLD_MAX_X" and "minx < MERCATOR_WORLD_MIN_X"
  shows "handle_antimeridian_buffers lib gdf ! k =
           unary_union lib
             [intersection lib g (box lib MERCATOR_WORLD_MIN_X (- large_y) MERCATOR_WORLD_MAX_X large_y),
              translate lib
                (intersection lib g (box lib MERCATOR_WORLD_MAX_X (- large_y) (maxx + 1) large_y))
                (- MERCATOR_WIDTH)]"
  using assms by (simp add: handle_antimeridian_buffers_nth corrected_geom_def Let_def)

theorem C2_both_edges_east_branch_witness:
  "(0::nat) < length [(0::nat, \<lparr>geometry = cells_buffer (point_at 0 0) 30000000\<rparr>)] \<and>
   bounds cells_lib (cells_buffer (point_at 0 0) 30000000) = Some (- 30000000, - 30000000, 30000000, 30000000) \<and>
   30000000 > MERCATOR_WORLD_MAX_X \<and> - 30000000 < MERCATOR_WORLD_MIN_X \<and>
   handle_antimeridian_buffers cells_lib [(0::nat, \<lparr>geometry = cells_buffer (point_at 0 0) 30000000\<rparr>)] ! 0 =
     unary_union cells_lib
       [intersection cells_lib (cells_buffer (point_at 0 0) 30000000)
          (box cells_lib MERCATOR_WORLD_MIN_X (- large_y) MERCATOR_WORLD_MAX_X large_y),
        translate cells_lib
          (intersection cells_lib (cells_buffer (point_at 0 0) 30000000)
             (box cells_lib MERCATOR_WORLD_MAX_X (- large_y) (30000000 + 1) large_y))
          (- MERCATOR_WIDTH)]"
  using C2_both_edges_east_branch [of 0 "[(0::nat, \<lparr>geometry = cells_buffer (point_at 0 0) 30000000\<rparr>)]"
      "cells_buffer (point_at 0 0) 30000000" cells_lib "- 30000000" "- 30000000" 30000000 30000000]
  by (simp add: cells_simps)

subsection \<open>The projection\<close>

lemma earth_radius_pos: "0 < earth_radius"
  by (simp add: earth_radius_def)

lemma mercator_x_0: "mercator_x 0 = 0"
  by (simp add: mercator_x_def)

lemma mercator_y_0: "mercator_y 0 = 0"
  by (simp add: mercator_y_def tan_45)

lemma mercator_lon_0: "mercator_lon 0 = 0"
  by (simp add: mercator_lon_def)

lemma mercator_lat_0: "mercator_lat 0 = 0"
  by (simp add: mercator_lat_def arctan_one)

lemma mercator_lon_less_iff: "mercator_lon a < mercator_lon b \<longleftrightarrow> a < b"
  by (simp add: mercator_lon_def earth_radius_def divide_less_cancel)

lemma mercator_lon_le_iff: "mercator_lon a \<le> mercator_lon b \<longleftrightarrow> a \<le> b"
  using mercator_lon_less_iff [of b a] by (simp add: not_less [symmetric])

lemma mercator_lat_less_iff: "mercator_lat a < mercator_lat b \<longleftrightarrow> a < b"
  by (simp add: mercator_lat_def earth_radius_def divide_less_cancel arctan_less_iff)

lemma mercator_lat_le_iff: "mercator_lat a \<le> mercator_lat b \<longleftrightarrow> a \<le> b"
  using mercator_lat_less_iff [of b a] by (simp add: not_less [symmetric])

lemma mercator_lon_sign:
  "mercator_lon a < 0 \<longleftrightarrow> a < 0" "0 < mercator_lon a \<longleftrightarrow> 0 < a"
  "mercator_lon a \<le> 0 \<longleftrightarrow> a \<le> 0" "0 \<le> mercator_lon a \<longleftrightarrow> 0 \<le> a"
  using mercator_lon_less_iff [of a 0] mercator_lon_less_iff [of 0 a]
    mercator_lon_le_iff [of a 0] mercator_lon_le_iff [of 0 a]
  by (simp_all add: mercator_lon_0)

lemma mercator_lat_sign:
  "mercator_lat a < 0 \<longleftrightarrow> a < 0" "0 < mercator_lat a \<longleftrightarrow> 0 < a"
  "mercator_lat a \<le> 0 \<longleftrightarrow> a \<le> 0" "0 \<le> mercator_lat a \<longleftrightarrow> 0 \<le> a"
  using mercator_lat_less_iff [of a 0] mercator_lat_less_iff [of 0 a]
    mercator_lat_le_iff [of a 0] mercator_lat_le_iff [of 0 a]
  by (simp_all add: mercator_lat_0)

lemma mercator_lon_x: "mercator_lon (mercator_x lon) = lon"
  by (simp add: mercator_lon_def mercator_x_def earth_radius_def)

text \<open>
  Below the pole the angle \<open>pi/4 + lat_rad/2\<close> lies strictly between \<open>0\<close> and \<open>pi/2\<close>, where
  the tangent is positive and the arc tangent inverts it.
\<close>

lemma mercator_lat_y:
  assumes "- 90 < lat" and "lat < 90"
  shows "mercator_lat (mercator_y lat) = lat"
proof -
  define t where "t = pi / 4 + (lat * pi / 180) / 2"
  have t_pos: "0 < t"
  proof -
    have "(- 90) * pi < lat * pi"
      using assms(1) pi_gt_zero by (intro mult_strict_right_mono) simp_all
    then show ?thesis unfolding t_def by linarith
  qed
  have t_less: "t < pi / 2"
  proof -
    have "lat * pi < 90 * pi"
      using assms(2) pi_gt_zero by (intro mult_strict_right_mono) simp_all
    then show ?thesis unfolding t_def by linarith
  qed
  have "0 < tan t" using t_pos t_less by (rule tan_gt_zero)
  then have "exp (ln (tan t)) = tan t" by simp
  moreover have "arctan (tan t) = t"
    using t_pos t_less by (intro arctan_tan) simp_all
  ultimately have "mercator_lat (mercator_y lat) = (2 * t - pi / 2) * 180 / pi"
    by (simp add: mercator_lat_def mercator_y_def earth_radius_def t_def)
  also have "\<dots> = lat" by (simp add: t_def field_simps)
  finally show ?thesis .
qed

lemma clamp_lat_id: "\<bar>lat\<bar> \<le> 85 \<Longrightarrow> clamp_lat lat = lat"
  by (simp add: clamp_lat_def)

lemma round_trip_exact:
  assumes "\<bar>lat\<bar> \<le> 85"
  shows "toGeographic (toProjected (lon, lat)) = (lon, lat)"
proof -
  have "- 90 < lat" "lat < 90" using assms by simp_all
  then show ?thesis
    using assms by (simp add: toGeographic_def toProjected_def clamp_lat_id mercator_lon_x mercator_lat_y)
qed

text \<open>
  Claim C7: for every longitude and every latitude of absolute value at most 85 degrees,
  projecting and then unprojecting gives the point back within \<open>10^-6\<close> degrees in both
  coordinates. Over the reals the round trip is exact (\<open>round_trip_exact\<close>); the rounding of
  floating-point arithmetic is outside this model.
\<close>

theorem C7_round_trip:
  assumes "\<bar>lat\<bar> \<le> 85"
  shows "\<bar>fst (toGeographic (toProjected (lon, lat))) - lon\<bar> \<le> 1 / 10 ^ 6 \<and>
         \<bar>snd (toGeographic (toProjected (lon, lat))) - lat\<bar> \<le> 1 / 10 ^ 6"
  using assms by (simp add: round_trip_exact)

theorem C7_round_trip_witness:
  "\<bar>45 :: real\<bar> \<le> 85 \<and>
   \<bar>fst (toGeographic (toProjected (179.9, 45))) - 179.9\<bar> \<le> 1 / 10 ^ 6 \<and>
   \<bar>snd (toGeographic (toProjected (179.9, 45))) - 45\<bar> \<le> 1 / 10 ^ 6"
  using C7_round_trip [of 45 "179.9"] by simp

subsection \<open>The analysis\<close>

text \<open>
  The list assigned to the geometry column is as long as the frame, so the assignment
  never raises, and the steps of lines 107 to 117 act on each geometry on its own.
\<close>

lemma set_geometry_corrected:
  "set_geometry df (handle_antimeridian_buffers lib df) = Inr (map_geometry (corrected_geom lib) df)"
proof -
  have "map (\<lambda>((i, r), g). (i, r\<lparr>geometry := g\<rparr>)) (zip xs (map (\<lambda>(i, r). corrected_geom lib (geometry r)) xs))
        = map (\<lambda>(i, r). (i, r\<lparr>geometry := corrected_geom lib (geometry r)\<rparr>)) xs" for xs :: "('a, 'b) geo_row_scheme frame"
    by (induction xs) auto
  then show ?thesis
    by (simp add: set_geometry_def handle_antimeridian_buffers_map map_geometry_def)
qed

lemma map_geometry_comp:
  "map_geometry f (map_geometry g df) = map_geometry (\<lambda>x. f (g x)) df"
  by (induction df) (auto simp: map_geometry_def)

lemma perform_risk_analysis_eq:
  "perform_risk_analysis lib quakes_gdf cities_gdf min_mag radius_km =
     (if quakes_gdf = [] \<or> cities_gdf = [] \<or> filter (\<lambda>(i, q). mag_ge (mag q) min_mag) quakes_gdf = []
      then Inr ([], [])
      else
        let risk_zones = map_geometry (zone_geometry lib radius_km)
              (filter (\<lambda>(i, q). mag_ge (mag q) min_mag) quakes_gdf)
        in Inr (map renamed (sjoin lib cities_gdf risk_zones), risk_zones))"
  by (simp add: perform_risk_analysis_def Let_def set_geometry_corrected map_geometry_comp zone_geometry_def[abs_def])

lemma perform_risk_analysis_Inr:
  "\<exists>cities_w_risk risk_zones.
     perform_risk_analysis lib quakes_gdf cities_gdf min_mag radius_km = Inr (cities_w_risk, risk_zones)"
  by (simp add: perform_risk_analysis_eq Let_def)

lemma set_map_geometry:
  "(j, z) \<in> set (map_geometry f df) \<longleftrightarrow> (\<exists>q. (j, q) \<in> set df \<and> z = q\<lparr>geometry := f (geometry q)\<rparr>)"
  by (force simp: map_geometry_def image_iff)

text \<open>
  Claim C4: with an empty frame of earthquakes or an empty frame of cities the analysis
  returns two empty frames, and returns normally.
\<close>

theorem C4_empty_inputs:
  assumes "quakes_gdf = [] \<or> cities_gdf = []"
  shows "perform_risk_analysis lib quakes_gdf cities_gdf min_mag radius_km = Inr ([], [])"
  using assms by (auto simp: perform_risk_analysis_def)

theorem C4_empty_inputs_witness:
  "(([] :: cells quake frame) = [] \<or> [(0::nat, city_row ''A'' (point_at 0 0))] = []) \<and>
   perform_risk_analysis cells_lib [] [(0, city_row ''A'' (point_at 0 0))] 4 50 = Inr ([], []) \<and>
   ([(0::nat, quake_row 5 ''M 5'' (point_at 0 0))] = [] \<or> ([] :: cells city frame) = []) \<and>
   perform_risk_analysis cells_lib [(0, quake_row 5 ''M 5'' (point_at 0 0))] [] 4 50 = Inr ([], [])"
  using C4_empty_inputs [of "[]" "[(0, city_row ''A'' (point_at 0 0))]" cells_lib 4 50]
    C4_empty_inputs [of "[(0, quake_row 5 ''M 5'' (point_at 0 0))]" "[]" cells_lib 4 50]
  by simp

text \<open>
  Claim C3: the analysis returns normally; every risk zone comes from an earthquake of the
  input whose magnitude is at least \<open>min_mag\<close>, and carries its index label, magnitude, place
  and title; when there are cities, the zones are those earthquakes exactly, in order; and
  when no earthquake reaches \<open>min_mag\<close> both results are empty. A missing magnitude reaches
  no threshold.
\<close>

theorem C3_magnitude_filter:
  "\<exists>cities_w_risk risk_zones.
     perform_risk_analysis lib quakes_gdf cities_gdf min_mag radius_km = Inr (cities_w_risk, risk_zones) \<and>
     (\<forall>(j, z) \<in> set risk_zones.
        \<exists>q. (j, q) \<in> set quakes_gdf \<and> mag_ge (mag q) min_mag \<and>
            mag z = mag q \<and> place z = place q \<and> title z = title q) \<and>
     (cities_gdf \<noteq> [] \<longrightarrow>
        map (\<lambda>(j, z). (j, mag z, place z, title z)) risk_zones =
        map (\<lambda>(j, q). (j, mag q, place q, title q))
          (filter (\<lambda>(j, q). mag_ge (mag q) min_mag) quakes_gdf)) \<and>
     ((\<forall>(j, q) \<in> set quakes_gdf. \<not> mag_ge (mag q) min_mag) \<longrightarrow>
        cities_w_risk = [] \<and> risk_zones = [])"
proof (cases "quakes_gdf = [] \<or> cities_gdf = [] \<or> filter (\<lambda>(i, q). mag_ge (mag q) min_mag) quakes_gdf = []")
  case True
  then have "perform_risk_analysis lib quakes_gdf cities_gdf min_mag radius_km = Inr ([], [])"
    by (simp add: perform_risk_analysis_eq)
  moreover have "cities_gdf \<noteq> [] \<Longrightarrow> filter (\<lambda>(i, q). mag_ge (mag q) min_mag) quakes_gdf = []"
    using True by auto
  ultimately show ?thesis by simp
next
  case False
  define sig where "sig = filter (\<lambda>(i, q). mag_ge (mag q) min_mag) quakes_gdf"
  define zones where "zones = map_geometry (zone_geometry lib radius_km) sig"
  have res: "perform_risk_analysis lib quakes_gdf cities_gdf min_mag radius_km =
      Inr (map renamed (sjoin lib cities_gdf zones), zones)"
    using False by (simp add: perform_risk_analysis_eq Let_def zones_def sig_def)
  have a: "\<forall>(j, z) \<in> set zones.
        \<exists>q. (j, q) \<in> set quakes_gdf \<and> mag_ge (mag q) min_mag \<and>
            mag z = mag q \<and> place z = place q \<and> title z = title q"
    by (fastforce simp: zones_def sig_def set_map_geometry)
  have b: "map (\<lambda>(j, z). (j, mag z, place z, title z)) zones =
        map (\<lambda>(j, q). (j, mag q, place q, title q)) sig"
    by (simp add: zones_def map_geometry_def comp_def case_prod_unfold)
  have c: "\<not> (\<forall>(j, q) \<in> set quakes_gdf. \<not> mag_ge (mag q) min_mag)"
    using False by (auto simp: filter_empty_conv)
  show ?thesis
    using res a b c unfolding sig_def by blast
qed

text \<open>
  Claim C5, amended: the analysis does not look at the radius. For every radius, zero and
  negative ones included, and given cities and an earthquake that reaches the threshold,
  it hands every such earthquake's projected geometry to the library's buffer with the
  distance \<open>radius_km * 1000\<close> and returns the two frames built from the result.
\<close>

theorem C5_radius_not_validated:
  assumes "cities_gdf \<noteq> []"
    and "filter (\<lambda>(i, q). mag_ge (mag q) min_mag) quakes_gdf \<noteq> []"
  shows "perform_risk_analysis lib quakes_gdf cities_gdf min_mag radius_km =
           Inr (map renamed (sjoin lib cities_gdf
                  (map_geometry
                     (\<lambda>g. buffer lib (to_crs lib 3857 4326
                        (corrected_geom lib (buffer lib (to_crs lib 4326 3857 g) (radius_km * 1000)))) 0)
                     (filter (\<lambda>(i, q). mag_ge (mag q) min_mag) quakes_gdf))),
                map_geometry
                  (\<lambda>g. buffer lib (to_crs lib 3857 4326
                     (corrected_geom lib (buffer lib (to_crs lib 4326 3857 g) (radius_km * 1000)))) 0)
                  (filter (\<lambda>(i, q). mag_ge (mag q) min_mag) quakes_gdf))"
proof -
  from assms(2) have "quakes_gdf \<noteq> []" by auto
  with assms show ?thesis
    by (simp add: perform_risk_analysis_eq Let_def zone_geometry_def [abs_def])
qed

subsection \<open>The spatial join\<close>

lemma matching_pairs_Nil: "matching_pairs lib [] R = []"
  by (simp add: matching_pairs_def)

lemma matching_pairs_Cons:
  "matching_pairs lib (l # L) R =
     map (\<lambda>r. (l, r)) (filter (\<lambda>r. intersects lib (geometry (snd l)) (geometry (snd r))) R)
     @ matching_pairs lib L R"
  by (simp add: matching_pairs_def)

lemma matching_pairs_right_Nil: "matching_pairs lib L [] = []"
  by (induction L) (simp_all add: matching_pairs_Nil matching_pairs_Cons)

lemma set_matching_pairs:
  "(l, r) \<in> set (matching_pairs lib L R) \<longleftrightarrow>
     l \<in> set L \<and> r \<in> set R \<and> intersects lib (geometry (snd l)) (geometry (snd r))"
  by (induction L) (auto simp: matching_pairs_Nil matching_pairs_Cons)

lemma fst_renamed: "fst (renamed ((i, c), z)) = i"
  by (cases z) (simp add: renamed_def)

lemma index_right_renamed: "index_right (snd (renamed ((i, c), (j, z)))) = j"
  by (simp add: renamed_def)

lemma rows_of_absent_city:
  "i \<notin> fst ` set L \<Longrightarrow> filter (\<lambda>row. fst row = i) (map renamed (matching_pairs lib L R)) = []"
proof (induction L)
  case Nil
  then show ?case by (simp add: matching_pairs_Nil)
next
  case (Cons l L)
  obtain i' c' where l: "l = (i', c')" by (cases l)
  from Cons.prems l have "i' \<noteq> i" by auto
  then have "filter (\<lambda>row. fst row = i)
      (map renamed (map (\<lambda>r. (l, r)) (filter (\<lambda>r. intersects lib (geometry (snd l)) (geometry (snd r))) R))) = []"
    by (auto simp: l filter_empty_conv fst_renamed)
  with Cons show ?case by (simp add: matching_pairs_Cons)
qed

lemma rows_of_city:
  assumes "distinct (map fst L)" and "(i, c) \<in> set L"
  shows "filter (\<lambda>row. fst row = i) (map renamed (matching_pairs lib L R)) =
         map (\<lambda>z. renamed ((i, c), z)) (filter (\<lambda>z. intersects lib (geometry c) (geometry (snd z))) R)"
  using assms
proof (induction L)
  case Nil
  then show ?case by simp
next
  case (Cons l L)
  obtain i' c' where l: "l = (i', c')" by (cases l)
  show ?case
  proof (cases "i' = i")
    case True
    with Cons.prems l have "c' = c" and absent: "i \<notin> fst ` set L"
      by (auto simp: image_iff)
    have "filter (\<lambda>row. fst row = i)
        (map renamed (map (\<lambda>r. (l, r)) (filter (\<lambda>r. intersects lib (geometry (snd l)) (geometry (snd r))) R)))
        = map (\<lambda>z. renamed ((i, c), z)) (filter (\<lambda>z. intersects lib (geometry c) (geometry (snd z))) R)"
      using True \<open>c' = c\<close> by (simp add: l filter_map comp_def fst_renamed)
    then show ?thesis
      by (simp add: matching_pairs_Cons rows_of_absent_city [OF absent])
  next
    case False
    with Cons.prems l have "(i, c) \<in> set L" "distinct (map fst L)" by auto
    moreover have "filter (\<lambda>row. fst row = i)
        (map renamed (map (\<lambda>r. (l, r)) (filter (\<lambda>r. intersects lib (geometry (snd l)) (geometry (snd r))) R))) = []"
      using False by (auto simp: l filter_empty_conv fst_renamed)
    ultimately show ?thesis using Cons.IH by (simp add: matching_pairs_Cons)
  qed
qed

text \<open>
  What is assumed of the library's order is that it rearranges: the join returns the
  matching pairs, each as often as it was found, in whatever order.
\<close>

lemma mset_sjoin:
  assumes "\<And>pairs. mset (sjoin_order lib pairs) = mset pairs"
  shows "mset (sjoin lib L R) = mset (matching_pairs lib L R)"
  by (simp add: sjoin_def assms)

lemma set_sjoin:
  assumes "\<And>pairs. mset (sjoin_order lib pairs) = mset pairs"
  shows "(l, r) \<in> set (sjoin lib L R) \<longleftrightarrow>
     l \<in> set L \<and> r \<in> set R \<and> intersects lib (geometry (snd l)) (geometry (snd r))"
  using mset_eq_setD [OF mset_sjoin [OF assms, of L R]] by (simp add: set_matching_pairs)

lemma sjoin_empty:
  assumes "\<And>pairs. mset (sjoin_order lib pairs) = mset pairs"
  shows "sjoin lib [] R = []" and "sjoin lib L [] = []"
  using mset_sjoin [OF assms, of "[]" R] mset_sjoin [OF assms, of L "[]"]
  by (simp_all add: matching_pairs_Nil matching_pairs_right_Nil)

lemma perform_risk_analysis_join:
  assumes "\<And>pairs. mset (sjoin_order lib pairs) = mset pairs"
    and "perform_risk_analysis lib quakes_gdf cities_gdf min_mag radius_km = Inr (cities_w_risk, risk_zones)"
  shows "cities_w_risk = map renamed (sjoin lib cities_gdf risk_zones)"
  using assms(2)
  by (auto simp: perform_risk_analysis_eq Let_def sjoin_empty [OF assms(1)] split: if_splits)

text \<open>
  The impacted-places frame has a row for exactly the pairs of a city and a risk zone
  whose geometries the library's \<open>intersects\<close> relates.
\<close>

lemma impacted_iff_intersects:
  assumes "\<And>pairs. mset (sjoin_order lib pairs) = mset pairs"
    and "perform_risk_analysis lib quakes_gdf cities_gdf min_mag radius_km = Inr (cities_w_risk, risk_zones)"
  shows "set cities_w_risk =
           {renamed (l, r) | l r. l \<in> set cities_gdf \<and> r \<in> set risk_zones \<and>
              intersects lib (geometry (snd l)) (geometry (snd r))}"
proof -
  have "set (sjoin lib L R) =
      {(l, r) | l r. l \<in> set L \<and> r \<in> set R \<and> intersects lib (geometry (snd l)) (geometry (snd r))}"
    for L :: "'a city frame" and R
    using set_sjoin [OF assms(1), of _ _ L R] by auto
  then show ?thesis
    unfolding perform_risk_analysis_join [OF assms] by auto
qed

lemma mset_rows_of_city:
  assumes "\<And>pairs. mset (sjoin_order lib pairs) = mset pairs"
    and "distinct (map fst L)" and "(i, c) \<in> set L"
  shows "mset (filter (\<lambda>row. fst row = i) (map renamed (sjoin lib L R))) =
         image_mset (\<lambda>z. renamed ((i, c), z))
           (mset (filter (\<lambda>z. intersects lib (geometry c) (geometry (snd z))) R))"
proof -
  have "mset (filter (\<lambda>row. fst row = i) (map renamed (sjoin lib L R))) =
      filter_mset (\<lambda>row. fst row = i) (image_mset renamed (mset (sjoin lib L R)))"
    by simp
  also have "\<dots> = mset (filter (\<lambda>row. fst row = i) (map renamed (matching_pairs lib L R)))"
    by (simp add: mset_sjoin [OF assms(1)])
  also have "\<dots> = image_mset (\<lambda>z. renamed ((i, c), z))
           (mset (filter (\<lambda>z. intersects lib (geometry c) (geometry (snd z))) R))"
    by (simp add: rows_of_city [OF assms(2,3)])
  finally show ?thesis .
qed

text \<open>
  Claim C9: let a city, found by its index label, intersect exactly two of the risk zones
  returned, \<open>z1\<close> and \<open>z2\<close>. Then the impacted-places frame has exactly two rows for that
  city, the one joined with \<open>z1\<close> and the one joined with \<open>z2\<close>, each naming its zone in
  \<open>index_right\<close>: nothing is merged and no zone is preferred. The rows are counted as a
  multiset, since the order in which the join lists them is the library's; of that order
  only that it rearranges is assumed.
\<close>

theorem C9_one_record_per_zone:
  assumes "\<And>pairs. mset (sjoin_order lib pairs) = mset pairs"
    and "perform_risk_analysis lib quakes_gdf cities_gdf min_mag radius_km = Inr (cities_w_risk, risk_zones)"
    and "distinct (map fst cities_gdf)" and "(i, c) \<in> set cities_gdf"
    and "mset (filter (\<lambda>z. intersects lib (geometry c) (geometry (snd z))) risk_zones) = {#z1, z2#}"
  shows "length (filter (\<lambda>row. fst row = i) cities_w_risk) = 2 \<and>
         mset (filter (\<lambda>row. fst row = i) cities_w_risk) =
           {#renamed ((i, c), z1), renamed ((i, c), z2)#} \<and>
         mset (map (\<lambda>row. index_right (snd row)) (filter (\<lambda>row. fst row = i) cities_w_risk)) =
           {#fst z1, fst z2#}"
proof -
  have rows: "mset (filter (\<lambda>row. fst row = i) cities_w_risk) =
      {#renamed ((i, c), z1), renamed ((i, c), z2)#}"
    using mset_rows_of_city [OF assms(1,3,4), of risk_zones] assms(5)
    by (simp add: perform_risk_analysis_join [OF assms(1,2)])
  have "length (filter (\<lambda>row. fst row = i) cities_w_risk) =
      size (mset (filter (\<lambda>row. fst row = i) cities_w_risk))"
    by (simp only: size_mset)
  also have "\<dots> = 2"
    unfolding rows by simp
  finally have count: "length (filter (\<lambda>row. fst row = i) cities_w_risk) = 2" .
  have "mset (map (\<lambda>row. index_right (snd row)) (filter (\<lambda>row. fst row = i) cities_w_risk)) =
      image_mset (\<lambda>row. index_right (snd row)) (mset (filter (\<lambda>row. fst row = i) cities_w_risk))"
    by simp
  also have "\<dots> = {#fst z1, fst z2#}"
    unfolding rows by (cases z1; cases z2) (simp add: index_right_renamed)
  finally show ?thesis using rows count by blast
qed

subsection \<open>Runs on the library of rectangles\<close>

text \<open>
  An earthquake at longitude 0, latitude 0 with a radius of 50 km: the zone is the square
  of half-side 50 km in projected metres, taken back to degrees, and the origin lies in it.
  A point buffered by a distance that is not positive leaves an empty zone.
\<close>

lemma cells_lib_order: "mset (sjoin_order cells_lib pairs) = mset pairs"
  by (simp add: cells_lib_sel)

lemma zone_at_origin:
  "zone_geometry cells_lib 50 (point_at 0 0) =
     [(mercator_lon (- 50000), mercator_lat (- 50000), mercator_lon 50000, mercator_lat 50000)]"
  by (simp add: zone_geometry_def corrected_geom_def cells_to_crs_def cells_simps
      mercator_x_0 mercator_y_0 mercator_lon_less_iff mercator_lat_less_iff)

lemma origin_in_zone:
  "cells_intersects (point_at 0 0)
     [(mercator_lon (- 50000), mercator_lat (- 50000), mercator_lon 50000, mercator_lat 50000)]"
  by (simp add: cells_simps max_def min_def mercator_lon_sign mercator_lat_sign)

lemma zone_of_point_not_positive:
  "d \<le> 0 \<Longrightarrow> zone_geometry cells_lib d (point_at x y) = []"
  by (simp add: zone_geometry_def corrected_geom_def cells_to_crs_def cells_simps mult_le_0_iff)

lemma nothing_in_empty: "\<not> cells_intersects g []"
  by (simp add: cells_simps)

lemma analysis_two_quakes_at_origin:
  "perform_risk_analysis cells_lib
     [(0, quake_row 5 ''M 5'' (point_at 0 0)), (1, quake_row 6 ''M 6'' (point_at 0 0))]
     [(3, city_row ''A'' (point_at 0 0))] 4 50 =
   Inr ([renamed ((3, city_row ''A'' (point_at 0 0)),
                  (0, quake_row 5 ''M 5'' (zone_geometry cells_lib 50 (point_at 0 0)))),
         renamed ((3, city_row ''A'' (point_at 0 0)),
                  (1, quake_row 6 ''M 6'' (zone_geometry cells_lib 50 (point_at 0 0))))],
        [(0, quake_row 5 ''M 5'' (zone_geometry cells_lib 50 (point_at 0 0))),
         (1, quake_row 6 ''M 6'' (zone_geometry cells_lib 50 (point_at 0 0)))])"
  using origin_in_zone
  by (simp add: perform_risk_analysis_eq Let_def map_geometry_def sjoin_def matching_pairs_def quake_row_def city_row_def
      zone_at_origin cells_lib_sel)

theorem C3_magnitude_filter_witness:
  "(\<exists>cities_w_risk risk_zones.
      perform_risk_analysis cells_lib
        [(0, quake_row 5.1 ''M 5.1'' (point_at 0 0)), (1, quake_row 3.2 ''M 3.2'' (point_at 10 10))]
        [(0, city_row ''A'' (point_at 0 0))] 4 50 = Inr (cities_w_risk, risk_zones) \<and>
      map (\<lambda>(j, z). (j, mag z, place z, title z)) risk_zones = [(0, Some 5.1, ''offshore'', ''M 5.1'')]) \<and>
   perform_risk_analysis cells_lib
        [(0, quake_row 5.1 ''M 5.1'' (point_at 0 0)), (1, quake_row 3.2 ''M 3.2'' (point_at 10 10))]
        [(0, city_row ''A'' (point_at 0 0))] 6 50 = Inr ([], [])"
  using C3_magnitude_filter [of cells_lib
      "[(0, quake_row 5.1 ''M 5.1'' (point_at 0 0)), (1, quake_row 3.2 ''M 3.2'' (point_at 10 10))]"
      "[(0, city_row ''A'' (point_at 0 0))]" 4 50]
    C3_magnitude_filter [of cells_lib
      "[(0, quake_row 5.1 ''M 5.1'' (point_at 0 0)), (1, quake_row 3.2 ''M 3.2'' (point_at 10 10))]"
      "[(0, city_row ''A'' (point_at 0 0))]" 6 50]
  by (auto simp: quake_row_def)

theorem C9_one_record_per_zone_witness:
  "(\<forall>pairs. mset (sjoin_order cells_lib pairs) = mset pairs) \<and>
   distinct (map fst [(3::nat, city_row ''A'' (point_at 0 0))]) \<and>
   (3, city_row ''A'' (point_at 0 0)) \<in> set [(3::nat, city_row ''A'' (point_at 0 0))] \<and>
   (\<exists>cities_w_risk risk_zones.
      perform_risk_analysis cells_lib
        [(0, quake_row 5 ''M 5'' (point_at 0 0)), (1, quake_row 6 ''M 6'' (point_at 0 0))]
        [(3, city_row ''A'' (point_at 0 0))] 4 50 = Inr (cities_w_risk, risk_zones) \<and>
      mset (filter (\<lambda>z. intersects cells_lib (geometry (city_row ''A'' (point_at 0 0))) (geometry (snd z)))
             risk_zones) =
        {#(0, quake_row 5 ''M 5'' (zone_geometry cells_lib 50 (point_at 0 0))),
          (1, quake_row 6 ''M 6'' (zone_geometry cells_lib 50 (point_at 0 0)))#} \<and>
      length (filter (\<lambda>row. fst row = 3) cities_w_risk) = 2 \<and>
      mset (filter (\<lambda>row. fst row = 3) cities_w_risk) =
        {#renamed ((3, city_row ''A'' (point_at 0 0)),
                   (0, quake_row 5 ''M 5'' (zone_geometry cells_lib 50 (point_at 0 0)))),
          renamed ((3, city_row ''A'' (point_at 0 0)),
                   (1, quake_row 6 ''M 6'' (zone_geometry cells_lib 50 (point_at 0 0))))#} \<and>
      mset (map (\<lambda>row. index_right (snd row)) (filter (\<lambda>row. fst row = 3) cities_w_risk)) = {#0, 1#})"
proof -
  have hit: "mset (filter (\<lambda>z. intersects cells_lib (geometry (city_row ''A'' (point_at 0 0))) (geometry (snd z)))
     [(0::nat, quake_row 5 ''M 5'' (zone_geometry cells_lib 50 (point_at 0 0))),
      (1, quake_row 6 ''M 6'' (zone_geometry cells_lib 50 (point_at 0 0)))]) =
     {#(0, quake_row 5 ''M 5'' (zone_geometry cells_lib 50 (point_at 0 0))),
       (1, quake_row 6 ''M 6'' (zone_geometry cells_lib 50 (point_at 0 0)))#}"
    using origin_in_zone by (simp add: quake_row_def city_row_def zone_at_origin cells_lib_sel)
  have one: "distinct (map fst [(3::nat, city_row ''A'' (point_at 0 0))])"
    and mem: "(3, city_row ''A'' (point_at 0 0)) \<in> set [(3::nat, city_row ''A'' (point_at 0 0))]"
    by simp_all
  note two = C9_one_record_per_zone [OF cells_lib_order analysis_two_quakes_at_origin one mem hit,
      simplified fst_conv]
  show ?thesis
    using cells_lib_order analysis_two_quakes_at_origin one mem hit two by blast
qed

theorem C5_radius_not_validated_witness:
  "(- 1 :: real) \<le> 0 \<and> [(0::nat, city_row ''A'' (point_at 0 0))] \<noteq> [] \<and>
   filter (\<lambda>(i, q). mag_ge (mag q) 4) [(0::nat, quake_row 5 ''M 5'' (point_at 0 0))] \<noteq> [] \<and>
   perform_risk_analysis cells_lib [(0, quake_row 5 ''M 5'' (point_at 0 0))]
     [(0, city_row ''A'' (point_at 0 0))] 4 (- 1) =
     Inr ([], [(0, quake_row 5 ''M 5'' [])])"
proof -
  have empty: "zone_geometry cells_lib (- 1) (point_at 0 0) = []"
    by (rule zone_of_point_not_positive) simp
  have hyps: "[(0::nat, city_row ''A'' (point_at 0 0))] \<noteq> []"
    "filter (\<lambda>(i, q). mag_ge (mag q) 4) [(0::nat, quake_row 5 ''M 5'' (point_at 0 0))] \<noteq> []"
    by (simp_all add: quake_row_def)
  note run = C5_radius_not_validated [OF hyps, of cells_lib "- 1", folded zone_geometry_def]
  have "perform_risk_analysis cells_lib [(0, quake_row 5 ''M 5'' (point_at 0 0))]
     [(0, city_row ''A'' (point_at 0 0))] 4 (- 1) = Inr ([], [(0, quake_row 5 ''M 5'' [])])"
    unfolding run using nothing_in_empty
    by (simp add: quake_row_def city_row_def map_geometry_def sjoin_def matching_pairs_def empty cells_lib_sel)
  with hyps show ?thesis by simp
qed

text \<open>
  Claim C5 says that a radius that is not positive is rejected before any geometry is
  built. Nothing in the analysis tests the radius: with a radius of 0 km and with one of
  -50 km it returns normally, with a risk zone of empty geometry and no impacted place.
\<close>

theorem C5_zero_radius_counterexample:
  "perform_risk_analysis cells_lib [(0, quake_row 5 ''M 5'' (point_at 0 0))]
     [(0, city_row ''A'' (point_at 0 0))] 4 0 =
     Inr ([], [(0, quake_row 5 ''M 5'' [])]) \<and>
   perform_risk_analysis cells_lib [(0, quake_row 5 ''M 5'' (point_at 0 0))]
     [(0, city_row ''A'' (point_at 0 0))] 4 (- 50) =
     Inr ([], [(0, quake_row 5 ''M 5'' [])])"
  using zone_of_point_not_positive [of 0 0 0] zone_of_point_not_positive [of "- 50" 0 0] nothing_in_empty
  by (simp add: perform_risk_analysis_eq Let_def quake_row_def city_row_def map_geometry_def sjoin_def matching_pairs_def
      cells_lib_sel)

subsection \<open>A city at the epicentre\<close>

text \<open>
  On the library of rectangles, a city at the epicentre of an earthquake that reaches the
  threshold is among the impacted places whenever the radius is positive and the projected
  epicentre lies within the clipping box, that is between \<open>-MAX_X\<close> and \<open>MAX_X\<close> and
  within \<open>10^10\<close> of the equator.
\<close>

lemma mercator_lon_le_x: "mercator_lon a \<le> lon \<longleftrightarrow> a \<le> mercator_x lon"
  using mercator_lon_le_iff [of a "mercator_x lon"] by (simp add: mercator_lon_x)

lemma mercator_lon_ge_x: "lon \<le> mercator_lon a \<longleftrightarrow> mercator_x lon \<le> a"
  using mercator_lon_le_iff [of "mercator_x lon" a] by (simp add: mercator_lon_x)

lemma mercator_lat_le_y:
  "- 90 < lat \<Longrightarrow> lat < 90 \<Longrightarrow> mercator_lat a \<le> lat \<longleftrightarrow> a \<le> mercator_y lat"
  using mercator_lat_le_iff [of a "mercator_y lat"] by (simp add: mercator_lat_y)

lemma mercator_lat_ge_y:
  "- 90 < lat \<Longrightarrow> lat < 90 \<Longrightarrow> lat \<le> mercator_lat a \<longleftrightarrow> mercator_y lat \<le> a"
  using mercator_lat_le_iff [of "mercator_y lat" a] by (simp add: mercator_lat_y)

lemma epicentre_in_zone:
  assumes "0 < radius_km" and "- 90 < lat" and "lat < 90"
    and "MERCATOR_WORLD_MIN_X \<le> mercator_x lon" and "mercator_x lon \<le> MERCATOR_WORLD_MAX_X"
    and "- large_y \<le> mercator_y lat" and "mercator_y lat \<le> large_y"
  shows "cells_intersects (point_at lon lat) (zone_geometry cells_lib radius_km (point_at lon lat))"
  using assms
  by (simp add: zone_geometry_def corrected_geom_def cells_to_crs_def cells_simps Let_def
      mercator_lon_less_iff mercator_lat_less_iff mercator_lon_le_x mercator_lon_ge_x
      mercator_lat_le_y mercator_lat_ge_y max_def min_def)

lemma epicentre_city_found:
  assumes "0 < radius_km" and "- 90 < lat" and "lat < 90"
    and "MERCATOR_WORLD_MIN_X \<le> mercator_x lon" and "mercator_x lon \<le> MERCATOR_WORLD_MAX_X"
    and "- large_y \<le> mercator_y lat" and "mercator_y lat \<le> large_y"
    and quake: "(j, q) \<in> set quakes_gdf" "mag_ge (mag q) min_mag" "geometry q = point_at lon lat"
    and city: "(i, c) \<in> set cities_gdf" "geometry c = point_at lon lat"
  shows "\<exists>cities_w_risk risk_zones.
           perform_risk_analysis cells_lib quakes_gdf cities_gdf min_mag radius_km
             = Inr (cities_w_risk, risk_zones) \<and>
           renamed ((i, c), (j, q\<lparr>geometry := zone_geometry cells_lib radius_km (point_at lon lat)\<rparr>))
             \<in> set cities_w_risk"
proof -
  define sig where "sig = filter (\<lambda>(i, q). mag_ge (mag q) min_mag) quakes_gdf"
  define zones where "zones = map_geometry (zone_geometry cells_lib radius_km) sig"
  have "(j, q) \<in> set sig" using quake(1,2) by (simp add: sig_def)
  then have zone: "(j, q\<lparr>geometry := zone_geometry cells_lib radius_km (point_at lon lat)\<rparr>) \<in> set zones"
    using quake(3) by (auto simp: zones_def set_map_geometry)
  have "sig \<noteq> []" "quakes_gdf \<noteq> []" "cities_gdf \<noteq> []"
    using \<open>(j, q) \<in> set sig\<close> quake(1) city(1) by auto
  then have run: "perform_risk_analysis cells_lib quakes_gdf cities_gdf min_mag radius_km
      = Inr (map renamed (sjoin cells_lib cities_gdf zones), zones)"
    by (simp add: perform_risk_analysis_eq Let_def zones_def sig_def)
  have "((i, c), (j, q\<lparr>geometry := zone_geometry cells_lib radius_km (point_at lon lat)\<rparr>))
      \<in> set (sjoin cells_lib cities_gdf zones)"
    using zone city epicentre_in_zone [OF assms(1-7)] by (simp add: set_sjoin [OF cells_lib_order] cells_lib_sel)
  then show ?thesis unfolding run by auto
qed

subsection \<open>An epicentre on the antimeridian\<close>

text \<open>
  Machin's formula and the partial sums of the alternating series of the arc tangent
  enclose \<open>pi\<close> tightly enough to place the projected antimeridian, \<open>6378137 * pi\<close>,
  against the constant \<open>20037508.34\<close>: it lies beyond it, by a little under 3 mm.
\<close>

lemma arctan_partial_sums:
  fixes x :: real
  assumes "0 < x" and "x \<le> 1"
  shows "(\<Sum>i<2 * n. (- 1) ^ i * (1 / real (i * 2 + 1) * x ^ (i * 2 + 1))) \<le> arctan x"
    and "arctan x \<le> (\<Sum>i<2 * n + 1. (- 1) ^ i * (1 / real (i * 2 + 1) * x ^ (i * 2 + 1)))"
proof -
  have abs: "\<bar>x\<bar> \<le> 1" using assms by simp
  have pos: "0 < 1 / real (0 * 2 + 1) * x ^ (0 * 2 + 1)" using assms by simp
  from summable_Leibniz(2) [OF zeroseq_arctan_series [OF abs] monoseq_arctan_series [OF abs]] pos
  have "(\<Sum>i. (- 1) ^ i * (1 / real (i * 2 + 1) * x ^ (i * 2 + 1)))
      \<in> {\<Sum>i<2 * n. (- 1) ^ i * (1 / real (i * 2 + 1) * x ^ (i * 2 + 1)) ..
         \<Sum>i<2 * n + 1. (- 1) ^ i * (1 / real (i * 2 + 1) * x ^ (i * 2 + 1))}"
    by blast
  then show "(\<Sum>i<2 * n. (- 1) ^ i * (1 / real (i * 2 + 1) * x ^ (i * 2 + 1))) \<le> arctan x"
    and "arctan x \<le> (\<Sum>i<2 * n + 1. (- 1) ^ i * (1 / real (i * 2 + 1) * x ^ (i * 2 + 1)))"
    by (simp_all add: arctan_series [OF abs])
qed

lemma arctan_fifth_bounds:
  "(19739555984 / 100000000000 :: real) \<le> arctan (1 / 5)"
  "arctan (1 / 5) \<le> (19739555985 / 100000000000 :: real)"
proof -
  have "(\<Sum>i<2 * 4. (- 1) ^ i * (1 / real (i * 2 + 1) * (1 / 5) ^ (i * 2 + 1))) \<le> arctan (1 / 5 :: real)"
    by (rule arctan_partial_sums) simp_all
  moreover have "(19739555984 / 100000000000 :: real)
      \<le> (\<Sum>i<2 * 4. (- 1) ^ i * (1 / real (i * 2 + 1) * (1 / 5) ^ (i * 2 + 1)))"
    by (simp add: eval_nat_numeral)
  ultimately show "(19739555984 / 100000000000 :: real) \<le> arctan (1 / 5)" by linarith
  have "arctan (1 / 5 :: real) \<le> (\<Sum>i<2 * 4 + 1. (- 1) ^ i * (1 / real (i * 2 + 1) * (1 / 5) ^ (i * 2 + 1)))"
    by (rule arctan_partial_sums) simp_all
  moreover have "(\<Sum>i<2 * 4 + 1. (- 1) ^ i * (1 / real (i * 2 + 1) * (1 / 5) ^ (i * 2 + 1)))
      \<le> (19739555985 / 100000000000 :: real)"
    by (simp add: eval_nat_numeral)
  ultimately show "arctan (1 / 5) \<le> (19739555985 / 100000000000 :: real)" by linarith
qed

lemma arctan_239_bounds:
  "(4184076 / 1000000000 :: real) \<le> arctan (1 / 239)"
  "arctan (1 / 239) \<le> (41840760021 / 10000000000000 :: real)"
proof -
  have "(\<Sum>i<2 * 1. (- 1) ^ i * (1 / real (i * 2 + 1) * (1 / 239) ^ (i * 2 + 1))) \<le> arctan (1 / 239 :: real)"
    by (rule arctan_partial_sums) simp_all
  moreover have "(4184076 / 1000000000 :: real)
      \<le> (\<Sum>i<2 * 1. (- 1) ^ i * (1 / real (i * 2 + 1) * (1 / 239) ^ (i * 2 + 1)))"
    by (simp add: eval_nat_numeral)
  ultimately show "(4184076 / 1000000000 :: real) \<le> arctan (1 / 239)" by linarith
  have "arctan (1 / 239 :: real) \<le> (\<Sum>i<2 * 1 + 1. (- 1) ^ i * (1 / real (i * 2 + 1) * (1 / 239) ^ (i * 2 + 1)))"
    by (rule arctan_partial_sums) simp_all
  moreover have "(\<Sum>i<2 * 1 + 1. (- 1) ^ i * (1 / real (i * 2 + 1) * (1 / 239) ^ (i * 2 + 1)))
      \<le> (41840760021 / 10000000000000 :: real)"
    by (simp add: eval_nat_numeral)
  ultimately show "arctan (1 / 239) \<le> (41840760021 / 10000000000000 :: real)" by linarith
qed

lemma pi_bounds: "(3.1415926532 :: real) < pi" "pi < (3.1415926537 :: real)"
proof -
  have "pi = 16 * arctan (1 / 5) - 4 * arctan (1 / 239)"
    using machin by simp
  then show "(3.1415926532 :: real) < pi" "pi < (3.1415926537 :: real)"
    using arctan_fifth_bounds arctan_239_bounds by simp_all
qed

lemma mercator_x_180: "20037508.34 < mercator_x 180" "mercator_x 180 < 20037508.35"
  using pi_bounds by (simp_all add: mercator_x_def earth_radius_def)

lemma mercator_lon_180: "mercator_lon (mercator_x 180) = 180"
  by (rule mercator_lon_x)

lemma zone_at_antimeridian:
  "zone_geometry cells_lib 50 (point_at 180 0) =
     [(mercator_lon (mercator_x 180 - 50000), mercator_lat (- 50000),
       mercator_lon 20037508.34, mercator_lat 50000),
      (mercator_lon (- 20037508.34), mercator_lat (- 50000),
       mercator_lon (mercator_x 180 + 50000 - 40075016.68), mercator_lat 50000)]"
  using mercator_x_180
  by (simp add: zone_geometry_def corrected_geom_def cells_to_crs_def cells_simps Let_def
      mercator_y_0 mercator_lon_less_iff mercator_lat_less_iff max_def min_def)

lemma antimeridian_not_in_zone:
  "\<not> cells_intersects (point_at 180 0)
     [(mercator_lon (mercator_x 180 - 50000), mercator_lat (- 50000),
       mercator_lon 20037508.34, mercator_lat 50000),
      (mercator_lon (- 20037508.34), mercator_lat (- 50000),
       mercator_lon (mercator_x 180 + 50000 - 40075016.68), mercator_lat 50000)]"
proof -
  have a: "mercator_lon 20037508.34 < 180"
    using mercator_x_180 mercator_lon_less_iff [of "20037508.34" "mercator_x 180"]
    by (simp add: mercator_lon_180)
  have b: "mercator_lon (mercator_x 180 + 50000 - 40075016.68) < 180"
    using mercator_x_180 mercator_lon_less_iff [of "mercator_x 180 + 50000 - 40075016.68" "mercator_x 180"]
    by (simp add: mercator_lon_180)
  show ?thesis
    using a b by (simp add: cells_simps max_def min_def)
qed

text \<open>
  Claim C8: the join emits a row for every pair of a city and a zone that intersect
  (\<open>impacted_iff_intersects\<close>), and a city at the epicentre of an earthquake that reaches the
  threshold is to appear among the impacted places whenever the radius is positive. For an
  epicentre at longitude 180 it does not: the buffer around it is cut at \<open>x = 20037508.34\<close>,
  short of the epicentre at \<open>x = 6378137 * pi\<close>, the piece holding the epicentre is moved to
  the western edge, and the city at longitude 180 lies in neither piece. The run is the one
  \<^verbatim>\<open>main\<close> makes, with the configured threshold and radius.
\<close>

theorem C8_epicenter_on_antimeridian_missed:
  "perform_risk_analysis cells_lib
     [(0, quake_row 5 ''M 5'' (point_at 180 0))] [(0, city_row ''A'' (point_at 180 0))]
     MIN_MAGNITUDE RISK_RADIUS_KM =
   Inr ([], [(0, quake_row 5 ''M 5''
     [(mercator_lon (mercator_x 180 - 50000), mercator_lat (- 50000),
       mercator_lon 20037508.34, mercator_lat 50000),
      (mercator_lon (- 20037508.34), mercator_lat (- 50000),
       mercator_lon (mercator_x 180 + 50000 - 40075016.68), mercator_lat 50000)])])"
  using antimeridian_not_in_zone
  by (simp add: perform_risk_analysis_eq Let_def map_geometry_def sjoin_def matching_pairs_def quake_row_def city_row_def
      zone_at_antimeridian cells_lib_sel MIN_MAGNITUDE_def RISK_RADIUS_KM_def)

end
